theory Spec2Isabelle
  imports Main "HOL-Library.Word"
begin

section \<open>KnightRiderAdventure.ino: the sketch and its hardware\<close>

text \<open>
  The sketch drives two DC motors from three ultrasonic range sensors. Its globals
  (\<open>car\<close>, \<open>eyes\<close>, \<open>nonce\<close>, \<open>beforeEyes\<close>, \<open>longVision\<close>) and the hardware it talks
  to are one record that every function takes and returns.

  The hardware is the part not written in the sketch: what each \<open>ping_cm()\<close> reads, what
  \<open>random()\<close> draws, the millisecond clock and the motor shield. Its inputs are functions of
  the call number (\<open>echo w s k\<close> is the reading of the k-th ping of sensor \<open>s\<close>), its
  outputs a list of the motor commands in the order they were issued. The clock moves by
  \<open>delay\<close> only. Writes to the LCD change nothing the sketch reads again and are left out,
  with \<open>debugMode\<close> and \<open>previousSense\<close>, which only serve them.

  The sketch's \<open>int\<close> is modelled by \<open>int\<close>: a reading is at most the sensor's maximal
  distance and at most five are added up, far from the bounds of any C \<open>int\<close>
  (lemma \<open>pingLoop_in_int16\<close> below). The clock is an \<open>unsigned long\<close> of 32 bits, whose
  subtraction wraps around.
\<close>

datatype sensor = FrontSensor | LeftSensor | RightSensor

datatype motor = LeftMotor | RightMotor

datatype direction = FORWARD | BACKWARD | RELEASE

datatype command = SetSpeed motor int | Run motor direction

record car =
  averageSpeed :: int
  maxSpeed :: int
  minSpeed :: int

record eyes =
  front :: int
  left :: int
  right :: int

record state =
  car :: car
  eyes :: eyes
  nonce :: "32 word"
  beforeEyes :: "int \<times> int \<times> int"
  longVision :: int
  millis :: "32 word"
  issued :: "command list"
  echo :: "sensor \<Rightarrow> nat \<Rightarrow> nat"
  pinged :: "sensor \<Rightarrow> nat"
  entropy :: "nat \<Rightarrow> nat"
  drawn :: nat
  leftOperandFirst :: bool

definition MAX_DISTANCE :: nat where
  "MAX_DISTANCE = 300"

subsection \<open>Hardware and library calls\<close>

text \<open>\<open>delay(ms)\<close> blocks for \<open>ms\<close> milliseconds.\<close>

definition delay :: "nat \<Rightarrow> state \<Rightarrow> state" where
  "delay ms w = w\<lparr>millis := millis w + of_nat ms\<rparr>"

text \<open>\<open>NewPing::ping_cm()\<close>: the next reading of the sensor, in centimetres; 0 is no echo.\<close>

definition ping_cm :: "sensor \<Rightarrow> state \<Rightarrow> int \<times> state" where
  "ping_cm s w = (int (echo w s (pinged w s)), w\<lparr>pinged := (pinged w)(s := Suc (pinged w s))\<rparr>)"

text \<open>
  Arduino's \<open>random(howsmall, howbig)\<close>: \<open>howsmall\<close> when the range is empty, and otherwise
  the next value of the generator, which is not negative, reduced modulo the width of the
  range and shifted by \<open>howsmall\<close>.
\<close>

definition arduino_random :: "int \<Rightarrow> int \<Rightarrow> state \<Rightarrow> int \<times> state" where
  "arduino_random howsmall howbig w =
     (if howsmall \<ge> howbig then (howsmall, w)
      else (int (entropy w (drawn w)) mod (howbig - howsmall) + howsmall,
            w\<lparr>drawn := Suc (drawn w)\<rparr>))"

text \<open>\<open>AF_DCMotor::setSpeed\<close> and \<open>AF_DCMotor::run\<close>: the command goes to the shield.\<close>

definition setSpeed :: "motor \<Rightarrow> int \<Rightarrow> state \<Rightarrow> state" where
  "setSpeed m speed w = w\<lparr>issued := issued w @ [SetSpeed m speed]\<rparr>"

definition run :: "motor \<Rightarrow> direction \<Rightarrow> state \<Rightarrow> state" where
  "run m d w = w\<lparr>issued := issued w @ [Run m d]\<rparr>"

text \<open>Division of C \<open>int\<close>s truncates towards zero.\<close>

definition c_div :: "int \<Rightarrow> int \<Rightarrow> int" where
  "c_div a b = sgn a * sgn b * (\<bar>a\<bar> div \<bar>b\<bar>)"

subsection \<open>class Car\<close>

definition drive :: "int \<Rightarrow> state \<Rightarrow> state" where
  "drive speed w =
     (let w = setSpeed LeftMotor speed w;
          w = setSpeed RightMotor speed w;
          w = run LeftMotor FORWARD w
      in run RightMotor FORWARD w)"

definition setTopSpeed :: "state \<Rightarrow> state" where
  "setTopSpeed w =
     (let w = setSpeed LeftMotor (maxSpeed (car w)) w
      in setSpeed RightMotor (maxSpeed (car w)) w)"

text \<open>
  The \<open>switch\<close> of \<open>changeGear\<close> puts \<open>default:\<close> on the same statements as \<open>case 1:\<close>.
\<close>

definition changeGear :: "int \<Rightarrow> state \<Rightarrow> state" where
  "changeGear gear w =
     (let w = (if gear = 2 then w\<lparr>car := (car w)\<lparr>averageSpeed := 150\<rparr>\<rparr>
               else if gear = 3 then w\<lparr>car := (car w)\<lparr>averageSpeed := 175\<rparr>\<rparr>
               else if gear = 4 then w\<lparr>car := (car w)\<lparr>averageSpeed := 200\<rparr>\<rparr>
               else w\<lparr>car := (car w)\<lparr>averageSpeed := 125\<rparr>\<rparr>)
      in drive (averageSpeed (car w)) w)"

definition reverse :: "state \<Rightarrow> state" where
  "reverse w = (let w = run LeftMotor BACKWARD w in run RightMotor BACKWARD w)"

definition neutral :: "state \<Rightarrow> state" where
  "neutral w = (let w = run LeftMotor RELEASE w in run RightMotor RELEASE w)"

definition leftUTurn :: "state \<Rightarrow> state" where
  "leftUTurn w =
     (let w = neutral w;
          w = setTopSpeed w;
          w = run LeftMotor BACKWARD w;
          w = run RightMotor FORWARD w;
          w = delay 1250 w;
          w = neutral w
      in delay 1000 w)"

definition rightUTurn :: "state \<Rightarrow> state" where
  "rightUTurn w =
     (let w = neutral w;
          w = setTopSpeed w;
          w = run LeftMotor FORWARD w;
          w = run RightMotor BACKWARD w;
          w = delay 1250 w;
          w = neutral w
      in delay 1000 w)"

subsection \<open>class Eyes\<close>

definition CLEAR_PATH_AHEAD :: int where "CLEAR_PATH_AHEAD = 1"
definition PATH_CLOSING_UP :: int where "PATH_CLOSING_UP = 2"
definition PATH_BLOCKED :: int where "PATH_BLOCKED = 3"
definition NARROW_ROAD_LEFT_RIGHT :: int where "NARROW_ROAD_LEFT_RIGHT = 30"
definition CLEAR_PATH_LEFT :: int where "CLEAR_PATH_LEFT = 40"
definition CLEAR_PATH_RIGHT :: int where "CLEAR_PATH_RIGHT = 50"
definition SEEK_ALTERNATE_ROUTE :: int where "SEEK_ALTERNATE_ROUTE = 60"

text \<open>
  The loop of the three measuring functions, \<open>for (i = 0; i < count; i++)\<close>, with the
  iterations that remain as its argument: one ping added to \<open>sum\<close> (here \<open>sum_cm\<close>), then \<open>delay(5)\<close>.
\<close>

fun pingLoop :: "sensor \<Rightarrow> nat \<Rightarrow> int \<Rightarrow> state \<Rightarrow> int \<times> state" where
  "pingLoop s 0 sum_cm w = (sum_cm, w)"
| "pingLoop s (Suc n) sum_cm w =
     (let (cm, w) = ping_cm s w;
          sum_cm = sum_cm + cm;
          w = delay 5 w
      in pingLoop s n sum_cm w)"

text \<open>
  \<open>measureFrontDistance\<close> up to its assignment \<open>front = sum/count\<close>: one batch of pings.
\<close>

definition frontBatch :: "state \<Rightarrow> state" where
  "frontBatch w =
     (let sum_cm = 0;
          (count, w) = arduino_random 3 6 w;
          (sum_cm, w) = pingLoop FrontSensor (nat count) sum_cm w
      in w\<lparr>eyes := (eyes w)\<lparr>front := c_div sum_cm count\<rparr>\<rparr>)"

text \<open>
  The function returns \<open>front\<close> when it is not 0 and calls itself otherwise. Nothing bounds
  the number of calls, so not returning is the value \<open>None\<close>.
\<close>

partial_function (option) measureFrontDistance :: "state \<Rightarrow> (int \<times> state) option" where
  "measureFrontDistance w =
     (let w = frontBatch w
      in if front (eyes w) \<noteq> 0 then Some (front (eyes w), w)
         else measureFrontDistance w)"

definition measureLeftDistance :: "state \<Rightarrow> int \<times> state" where
  "measureLeftDistance w =
     (let sum_cm = 0;
          (count, w) = arduino_random 3 6 w;
          (sum_cm, w) = pingLoop LeftSensor (nat count) sum_cm w;
          w = w\<lparr>eyes := (eyes w)\<lparr>left := c_div sum_cm count\<rparr>\<rparr>
      in (left (eyes w), w))"

definition measureRightDistance :: "state \<Rightarrow> int \<times> state" where
  "measureRightDistance w =
     (let sum_cm = 0;
          (count, w) = arduino_random 3 6 w;
          (sum_cm, w) = pingLoop RightSensor (nat count) sum_cm w;
          w = w\<lparr>eyes := (eyes w)\<lparr>right := c_div sum_cm count\<rparr>\<rparr>
      in (right (eyes w), w))"

definition openEyesWide :: "state \<Rightarrow> state option" where
  "openEyesWide w =
     (case measureFrontDistance w of
        None \<Rightarrow> None
      | Some (f, w) \<Rightarrow>
          let (l, w) = measureLeftDistance w;
              (r, w) = measureRightDistance w
          in Some w)"

definition suggestGear :: "state \<Rightarrow> (int \<times> state) option" where
  "suggestGear w =
     (case measureFrontDistance w of
        None \<Rightarrow> None
      | Some (distance, w) \<Rightarrow>
          if distance \<ge> 275 then Some (4, w)
          else if distance \<ge> 200 then Some (3, w)
          else if distance \<ge> 100 then Some (2, w)
          else Some (1, w))"

text \<open>
  \<open>commonSense\<close> has no \<open>return\<close> after its last \<open>else if\<close>: control that gets there
  flows off the end of a function that returns \<open>int\<close>, and the caller reads a value that
  was never set.
\<close>

datatype fault = MissingReturn

definition commonSense :: "state \<Rightarrow> ((fault + int) \<times> state) option" where
  "commonSense w =
     (case openEyesWide w of
        None \<Rightarrow> None
      | Some w \<Rightarrow>
          if front (eyes w) > 50 then Some (Inr CLEAR_PATH_AHEAD, w)
          else if front (eyes w) > 40 then Some (Inr SEEK_ALTERNATE_ROUTE, w)
          else if front (eyes w) > 30 then Some (Inr PATH_CLOSING_UP, w)
          else if left (eyes w) < 8 \<and> right (eyes w) < 8 then Some (Inr NARROW_ROAD_LEFT_RIGHT, w)
          else if left (eyes w) \<ge> 8 \<and> left (eyes w) > right (eyes w) then Some (Inr CLEAR_PATH_LEFT, w)
          else if right (eyes w) \<ge> 8 \<and> right (eyes w) > left (eyes w) then Some (Inr CLEAR_PATH_RIGHT, w)
          else Some (Inl MissingReturn, w))"

definition seekAlternateRoute :: "state \<Rightarrow> (int \<times> state) option" where
  "seekAlternateRoute w =
     (case openEyesWide w of
        None \<Rightarrow> None
      | Some w \<Rightarrow>
          if front (eyes w) \<le> 40 \<and> (left (eyes w) > 80 \<or> right (eyes w) > 80) then
            (if left (eyes w) > right (eyes w) then Some (CLEAR_PATH_LEFT, w)
             else Some (CLEAR_PATH_RIGHT, w))
          else Some (NARROW_ROAD_LEFT_RIGHT, w))"

subsection \<open>rescueMission\<close>

text \<open>
  The recovery chooses its U-turn by \<open>eyes.measureLeftDistance() > eyes.measureRightDistance()\<close>.
  C++ does not say which operand of \<open>>\<close> is evaluated first, and both calls draw from the
  same generator, so the order the compiler chose is a parameter, \<open>leftOperandFirst\<close>.
\<close>

definition compareSides :: "state \<Rightarrow> bool \<times> state" where
  "compareSides w =
     (if leftOperandFirst w then
        (let (l, w) = measureLeftDistance w;
             (r, w) = measureRightDistance w
         in (l > r, w))
      else
        (let (r, w) = measureRightDistance w;
             (l, w) = measureLeftDistance w
         in (l > r, w)))"

definition rescueMission :: "state \<Rightarrow> state option" where
  "rescueMission w =
     (if millis w - nonce w > 5000 then
        (case measureFrontDistance w of
           None \<Rightarrow> None
         | Some (currentFront, w) \<Rightarrow>
             let (currentLeft, w) = measureLeftDistance w;
                 (currentRight, w) = measureRightDistance w;
                 frontTh = 10;
                 longVisionTh = 5;
                 df = \<bar>fst (beforeEyes w) - currentFront\<bar>;
                 w = (if df \<le> frontTh then
                        (let w = (if currentFront > 100 \<and> df \<le> longVisionTh
                                  then w\<lparr>longVision := longVision w + 1\<rparr> else w)
                         in if longVision w > 2 \<or> currentFront < 100 then
                              (let w = delay 50 w;
                                   w = changeGear 1 w;
                                   w = reverse w;
                                   w = delay 1000 w;
                                   (leftWider, w) = compareSides w;
                                   w = (if leftWider then leftUTurn w else rightUTurn w)
                               in w\<lparr>longVision := 0\<rparr>)
                            else w)
                      else w);
                 w = w\<lparr>nonce := millis w\<rparr>
             in Some (w\<lparr>beforeEyes := (currentFront, currentLeft, currentRight)\<rparr>))
      else Some w)"

subsection \<open>What a batch of pings reads\<close>

text \<open>
  The vocabulary of the statements below. \<open>readings w s n\<close> are the next \<open>n\<close> readings of
  sensor \<open>s\<close>, \<open>batchSize w\<close> is the number of pings that the next call of a measuring
  function draws with \<open>random(3,6)\<close>, \<open>mean w s\<close> is the mean of that many readings,
  rounded down, and \<open>afterBatch s w\<close> is the hardware once they are taken.
\<close>

definition readings :: "state \<Rightarrow> sensor \<Rightarrow> nat \<Rightarrow> int list" where
  "readings w s n = map (\<lambda>i. int (echo w s (pinged w s + i))) [0..<n]"

definition batchSize :: "state \<Rightarrow> nat" where
  "batchSize w = nat (fst (arduino_random 3 6 w))"

definition mean :: "state \<Rightarrow> sensor \<Rightarrow> int" where
  "mean w s = sum_list (readings w s (batchSize w)) div int (batchSize w)"

definition afterBatch :: "sensor \<Rightarrow> state \<Rightarrow> state" where
  "afterBatch s w =
     w\<lparr>pinged := (pinged w)(s := pinged w s + batchSize w),
       millis := millis w + of_nat (5 * batchSize w),
       drawn := Suc (drawn w)\<rparr>"

text \<open>
  \<open>firstEchoAt w k\<close>: of the batches that the front sensor reads from \<open>w\<close> on, the first
  \<open>k\<close> have mean 0 and the next one has not.
\<close>

definition firstEchoAt :: "state \<Rightarrow> nat \<Rightarrow> bool" where
  "firstEchoAt w k \<longleftrightarrow>
     (\<forall>j<k. mean ((frontBatch ^^ j) w) FrontSensor = 0) \<and>
     mean ((frontBatch ^^ k) w) FrontSensor \<noteq> 0"

subsection \<open>What the recovery does\<close>

text \<open>
  \<open>freshSides w\<close> are the means of the next batch of the left and of the right sensor, taken
  one after the other in the order of \<open>leftOperandFirst\<close>. \<open>recoveryManeuver speed leftWider\<close>
  is the recovery as a list of motor commands: gear 1, reverse, and a U-turn at speed \<open>speed\<close>,
  to the left when \<open>leftWider\<close> and to the right otherwise. \<open>sensors w\<close> is all that a
  measurement reads.
\<close>

definition freshSides :: "state \<Rightarrow> int \<times> int" where
  "freshSides w =
     (mean (if leftOperandFirst w then w else afterBatch RightSensor w) LeftSensor,
      mean (if leftOperandFirst w then afterBatch LeftSensor w else w) RightSensor)"

definition recoveryManeuver :: "int \<Rightarrow> bool \<Rightarrow> command list" where
  "recoveryManeuver speed leftWider =
     [SetSpeed LeftMotor 125, SetSpeed RightMotor 125, Run LeftMotor FORWARD, Run RightMotor FORWARD,
      Run LeftMotor BACKWARD, Run RightMotor BACKWARD,
      Run LeftMotor RELEASE, Run RightMotor RELEASE,
      SetSpeed LeftMotor speed, SetSpeed RightMotor speed,
      Run LeftMotor (if leftWider then BACKWARD else FORWARD),
      Run RightMotor (if leftWider then FORWARD else BACKWARD),
      Run LeftMotor RELEASE, Run RightMotor RELEASE]"

definition sensors :: "state \<Rightarrow> (sensor \<Rightarrow> nat \<Rightarrow> nat) \<times> (sensor \<Rightarrow> nat) \<times> (nat \<Rightarrow> nat) \<times> nat \<times> bool" where
  "sensors w = (echo w, pinged w, entropy w, drawn w, leftOperandFirst w)"

subsection \<open>Test benches\<close>

text \<open>
  \<open>bench f l r\<close>: the sketch with fresh globals on sensors that read \<open>f\<close>, \<open>l\<close> and \<open>r\<close>
  at every ping, with a generator that draws 0 every time, so a batch has three pings.
  \<open>dropout n f\<close> is \<open>bench f 0 0\<close>
  whose front sensor hears no echo at its first \<open>n\<close> pings.
\<close>

definition bench :: "nat \<Rightarrow> nat \<Rightarrow> nat \<Rightarrow> state" where
  "bench f l r =
     \<lparr>car = \<lparr>averageSpeed = 150, maxSpeed = 250, minSpeed = 125\<rparr>,
      eyes = \<lparr>front = 0, left = 0, right = 0\<rparr>,
      nonce = 0, beforeEyes = (0, 0, 0), longVision = 0, millis = 0, issued = [],
      echo = (\<lambda>s k. case s of FrontSensor \<Rightarrow> f | LeftSensor \<Rightarrow> l | RightSensor \<Rightarrow> r),
      pinged = (\<lambda>s. 0), entropy = (\<lambda>k. 0), drawn = 0, leftOperandFirst = True\<rparr>"

definition dropout :: "nat \<Rightarrow> nat \<Rightarrow> state" where
  "dropout n f =
     (bench f 0 0)\<lparr>echo := (\<lambda>s k. case s of FrontSensor \<Rightarrow> if k < n then 0 else f | _ \<Rightarrow> 0)\<rparr>"

text \<open>
  \<open>ramp\<close>: every sensor reads 10, 11, 12, ... and the generator draws 1 every time, so a
  batch has four pings.
\<close>

definition ramp :: state where
  "ramp = (bench 0 0 0)\<lparr>echo := (\<lambda>s k. 10 + k), entropy := (\<lambda>k. 1)\<rparr>"

text \<open>
  \<open>overdue before count w\<close>: \<open>w\<close> six seconds after the last mission, which left the front
  distance \<open>before\<close> in \<open>beforeEyes\<close> and \<open>count\<close> in \<open>longVision\<close>.
\<close>

definition overdue :: "int \<Rightarrow> int \<Rightarrow> state \<Rightarrow> state" where
  "overdue before count w =
     w\<lparr>beforeEyes := (before, 0, 0), longVision := count, millis := nonce w + 6000\<rparr>"

section \<open>The measuring functions\<close>

lemma c_div_nonneg: "0 \<le> a \<Longrightarrow> 0 < b \<Longrightarrow> c_div a b = a div b"
  by (cases "a = 0") (simp_all add: c_div_def)

lemma readings_0: "readings w s 0 = []"
  by (simp add: readings_def)

lemma readings_Suc_front:
  "readings w s (Suc n) =
     int (echo w s (pinged w s)) # readings (w\<lparr>pinged := (pinged w)(s := Suc (pinged w s))\<rparr>) s n"
proof -
  have "[0..<Suc n] = 0 # map Suc [0..<n]"
    by (simp add: upt_conv_Cons map_Suc_upt del: upt_Suc)
  then show ?thesis
    by (simp add: readings_def comp_def del: upt_Suc)
qed

lemma readings_same:
  "echo w' = echo w \<Longrightarrow> pinged w' s = pinged w s \<Longrightarrow> readings w' s n = readings w s n"
  by (simp add: readings_def)

lemma readings_upd [simp]:
  "readings (w\<lparr>drawn := d\<rparr>) = readings w"
  "readings (w\<lparr>millis := m\<rparr>) = readings w"
  "readings (w\<lparr>eyes := e\<rparr>) = readings w"
  by (simp_all add: readings_def fun_eq_iff)

lemma pingLoop_eq:
  "pingLoop s n acc w =
     (acc + sum_list (readings w s n),
      w\<lparr>pinged := (pinged w)(s := pinged w s + n), millis := millis w + of_nat (5 * n)\<rparr>)"
proof (induction n arbitrary: acc w)
  case 0
  show ?case by (simp add: readings_0)
next
  case (Suc n)
  show ?case
    by (simp add: Suc ping_cm_def delay_def readings_Suc_front add.assoc
          readings_same [of "w\<lparr>pinged := p, millis := m\<rparr>" "w\<lparr>pinged := p\<rparr>" for p m] cong: if_cong)
qed

lemma arduino_random_3_6:
  "arduino_random 3 6 w = (3 + int (entropy w (drawn w)) mod 3, w\<lparr>drawn := Suc (drawn w)\<rparr>)"
  by (simp add: arduino_random_def)

lemma batchSize_eq: "batchSize w = 3 + entropy w (drawn w) mod 3"
  by (simp add: batchSize_def arduino_random_3_6 nat_add_distrib nat_mod_distrib)

lemma batchSize_range: "3 \<le> batchSize w \<and> batchSize w \<le> 5"
  unfolding batchSize_eq by arith

lemma sum_list_readings_nonneg: "0 \<le> sum_list (readings w s n)"
  by (rule sum_list_nonneg) (auto simp: readings_def)

lemma mean_as_c_div:
  "mean w s = c_div (sum_list (readings w s (batchSize w))) (int (batchSize w))"
  using batchSize_range [of w] by (simp add: mean_def c_div_nonneg sum_list_readings_nonneg)

lemma sum_list_readings_bound:
  "(\<forall>i. echo w s i \<le> c) \<Longrightarrow> sum_list (readings w s n) \<le> int n * int c"
proof -
  assume b: "\<forall>i. echo w s i \<le> c"
  have "sum_list (map (\<lambda>i. int (echo w s (pinged w s + i))) [0..<n])
        \<le> sum_list (map (\<lambda>i. int c) [0..<n])"
    by (rule sum_list_mono) (simp add: b)
  then show ?thesis by (simp add: readings_def sum_list_triv)
qed

lemma pingLoop_in_int16:
  assumes "\<forall>i. echo w s i \<le> MAX_DISTANCE" and "n \<le> 5"
  shows "0 \<le> fst (pingLoop s n 0 w) \<and> fst (pingLoop s n 0 w) < 2 ^ 15"
proof -
  have "sum_list (readings w s n) \<le> int n * int MAX_DISTANCE"
    by (rule sum_list_readings_bound [OF assms(1)])
  also have "\<dots> \<le> 5 * 300"
    using assms(2) by (simp add: MAX_DISTANCE_def)
  finally show ?thesis
    by (simp add: pingLoop_eq sum_list_readings_nonneg)
qed

lemma frontBatch_eq:
  "frontBatch w = (afterBatch FrontSensor w)\<lparr>eyes := (eyes w)\<lparr>front := mean w FrontSensor\<rparr>\<rparr>"
  by (simp add: frontBatch_def arduino_random_3_6 pingLoop_eq afterBatch_def mean_def batchSize_eq
        c_div_nonneg sum_list_readings_nonneg nat_add_distrib nat_mod_distrib zmod_int)

lemma measureLeftDistance_eq:
  "measureLeftDistance w =
     (mean w LeftSensor, (afterBatch LeftSensor w)\<lparr>eyes := (eyes w)\<lparr>left := mean w LeftSensor\<rparr>\<rparr>)"
  by (simp add: measureLeftDistance_def arduino_random_3_6 pingLoop_eq afterBatch_def mean_def batchSize_eq
        c_div_nonneg sum_list_readings_nonneg nat_add_distrib nat_mod_distrib zmod_int)

lemma measureRightDistance_eq:
  "measureRightDistance w =
     (mean w RightSensor, (afterBatch RightSensor w)\<lparr>eyes := (eyes w)\<lparr>right := mean w RightSensor\<rparr>\<rparr>)"
  by (simp add: measureRightDistance_def arduino_random_3_6 pingLoop_eq afterBatch_def mean_def batchSize_eq
        c_div_nonneg sum_list_readings_nonneg nat_add_distrib nat_mod_distrib zmod_int)

lemma fst_measureLeft: "fst (measureLeftDistance w) = mean w LeftSensor"
  by (simp add: measureLeftDistance_eq)

lemma fst_measureRight: "fst (measureRightDistance w) = mean w RightSensor"
  by (simp add: measureRightDistance_eq)

lemma eyes_measureLeft:
  "eyes (snd (measureLeftDistance w)) = (eyes w)\<lparr>left := mean w LeftSensor\<rparr>"
  by (simp add: measureLeftDistance_eq afterBatch_def)

lemma eyes_measureRight:
  "eyes (snd (measureRightDistance w)) = (eyes w)\<lparr>right := mean w RightSensor\<rparr>"
  by (simp add: measureRightDistance_eq afterBatch_def)

lemma eyes_after_sides:
  "eyes (snd (measureRightDistance (snd (measureLeftDistance w)))) =
     (eyes w)\<lparr>left := mean w LeftSensor,
              right := mean (snd (measureLeftDistance w)) RightSensor\<rparr>"
  by (simp add: measureLeftDistance_eq measureRightDistance_eq afterBatch_def)

lemma front_frontBatch: "front (eyes (frontBatch w)) = mean w FrontSensor"
  by (simp add: frontBatch_eq afterBatch_def)

subsection \<open>The front sensor, batch after batch\<close>

lemma measureFront_hit:
  "mean w FrontSensor \<noteq> 0 \<Longrightarrow> measureFrontDistance w = Some (mean w FrontSensor, frontBatch w)"
  by (subst measureFrontDistance.simps) (simp only: Let_def front_frontBatch not_False_eq_True if_True)

lemma measureFront_miss:
  "mean w FrontSensor = 0 \<Longrightarrow> measureFrontDistance w = measureFrontDistance (frontBatch w)"
  by (subst measureFrontDistance.simps) (simp only: Let_def front_frontBatch simp_thms if_False)

lemma funpow_Suc_shift: "(f ^^ Suc k) x = (f ^^ k) (f x)"
  by (simp only: funpow_Suc_right comp_apply)

lemma firstEchoAt_0: "firstEchoAt w 0 \<longleftrightarrow> mean w FrontSensor \<noteq> 0"
  by (simp add: firstEchoAt_def)

lemma firstEchoAt_Suc:
  "firstEchoAt w (Suc k) \<longleftrightarrow> mean w FrontSensor = 0 \<and> firstEchoAt (frontBatch w) k"
proof -
  have "(\<forall>j<Suc k. mean ((frontBatch ^^ j) w) FrontSensor = 0) \<longleftrightarrow>
        mean w FrontSensor = 0 \<and> (\<forall>j<k. mean ((frontBatch ^^ j) (frontBatch w)) FrontSensor = 0)"
    unfolding funpow_Suc_shift [symmetric] by (simp only: All_less_Suc2 funpow_0)
  then show ?thesis
    unfolding firstEchoAt_def funpow_Suc_shift by blast
qed

lemma measureFront_returns:
  "firstEchoAt w k \<Longrightarrow>
   measureFrontDistance w = Some (mean ((frontBatch ^^ k) w) FrontSensor, (frontBatch ^^ Suc k) w)"
proof (induction k arbitrary: w)
  case 0
  then show ?case by (simp add: measureFront_hit firstEchoAt_0)
next
  case (Suc k)
  then have z: "mean w FrontSensor = 0" and "firstEchoAt (frontBatch w) k"
    by (simp_all only: firstEchoAt_Suc)
  from Suc.IH [OF this(2)] show ?case
    unfolding measureFront_miss [OF z] funpow_Suc_shift .
qed

lemma measureFront_Some:
  assumes "measureFrontDistance w = Some y"
  shows "\<exists>k. firstEchoAt w k \<and> y = (mean ((frontBatch ^^ k) w) FrontSensor, (frontBatch ^^ Suc k) w)"
proof (rule measureFrontDistance.raw_induct
    [where P = "\<lambda>w y. \<exists>k. firstEchoAt w k \<and> y = (mean ((frontBatch ^^ k) w) FrontSensor, (frontBatch ^^ Suc k) w)",
     OF _ assms])
  fix f :: "state \<Rightarrow> (int \<times> state) option" and w y
  assume IH: "\<And>x y. f x = Some y \<Longrightarrow>
     \<exists>k. firstEchoAt x k \<and> y = (mean ((frontBatch ^^ k) x) FrontSensor, (frontBatch ^^ Suc k) x)"
  assume step: "(let w = frontBatch w
      in if front (eyes w) \<noteq> 0 then Some (front (eyes w), w) else f w) = Some y"
  show "\<exists>k. firstEchoAt w k \<and> y = (mean ((frontBatch ^^ k) w) FrontSensor, (frontBatch ^^ Suc k) w)"
  proof (cases "mean w FrontSensor = 0")
    case False
    with step have "y = (mean w FrontSensor, frontBatch w)"
      by (simp add: front_frontBatch)
    with False have "firstEchoAt w 0 \<and>
       y = (mean ((frontBatch ^^ 0) w) FrontSensor, (frontBatch ^^ Suc 0) w)"
      by (simp add: firstEchoAt_0)
    then show ?thesis by (rule exI)
  next
    case True
    with step have "f (frontBatch w) = Some y"
      by (simp add: front_frontBatch)
    from IH [OF this] obtain k where k: "firstEchoAt (frontBatch w) k"
      "y = (mean ((frontBatch ^^ k) (frontBatch w)) FrontSensor, (frontBatch ^^ Suc k) (frontBatch w))"
      by (elim exE conjE)
    from True k have "firstEchoAt w (Suc k) \<and>
       y = (mean ((frontBatch ^^ Suc k) w) FrontSensor, (frontBatch ^^ Suc (Suc k)) w)"
      unfolding firstEchoAt_Suc funpow_Suc_shift by (intro conjI)
    then show ?thesis by (rule exI)
  qed
qed

lemma openEyesWide_eq:
  "measureFrontDistance w = Some (cm, w1) \<Longrightarrow>
   openEyesWide w = Some (snd (measureRightDistance (snd (measureLeftDistance w1))))"
  by (simp add: openEyesWide_def split_beta)

subsection \<open>What the measurements leave alone\<close>

lemma echo_frontBatch: "echo (frontBatch w) = echo w"
  by (simp add: frontBatch_eq afterBatch_def)

lemma echo_frontBatches: "echo ((frontBatch ^^ k) w) = echo w"
  by (induction k) (simp_all add: echo_frontBatch)

lemma echo_after_left: "echo (snd (measureLeftDistance w)) = echo w"
  by (simp add: measureLeftDistance_eq afterBatch_def)

lemma echo_after_right: "echo (snd (measureRightDistance w)) = echo w"
  by (simp add: measureRightDistance_eq afterBatch_def)

lemma measureLeft_keeps:
  "issued (snd (measureLeftDistance w)) = issued w"
  "longVision (snd (measureLeftDistance w)) = longVision w"
  "beforeEyes (snd (measureLeftDistance w)) = beforeEyes w"
  "car (snd (measureLeftDistance w)) = car w"
  "nonce (snd (measureLeftDistance w)) = nonce w"
  by (simp_all add: measureLeftDistance_eq afterBatch_def)

lemma measureRight_keeps:
  "issued (snd (measureRightDistance w)) = issued w"
  "longVision (snd (measureRightDistance w)) = longVision w"
  "beforeEyes (snd (measureRightDistance w)) = beforeEyes w"
  "car (snd (measureRightDistance w)) = car w"
  "nonce (snd (measureRightDistance w)) = nonce w"
  by (simp_all add: measureRightDistance_eq afterBatch_def)

lemma frontBatch_keeps:
  "issued (frontBatch w) = issued w"
  "longVision (frontBatch w) = longVision w"
  "beforeEyes (frontBatch w) = beforeEyes w"
  "car (frontBatch w) = car w"
  "nonce (frontBatch w) = nonce w"
  by (simp_all add: frontBatch_eq afterBatch_def)

lemma frontBatches_keep:
  "issued ((frontBatch ^^ k) w) = issued w \<and>
   longVision ((frontBatch ^^ k) w) = longVision w \<and>
   beforeEyes ((frontBatch ^^ k) w) = beforeEyes w \<and>
   car ((frontBatch ^^ k) w) = car w \<and>
   nonce ((frontBatch ^^ k) w) = nonce w"
  by (induction k) (simp_all add: frontBatch_keeps)

lemma measureFront_keeps:
  assumes "measureFrontDistance w = Some (cm, w1)"
  shows "issued w1 = issued w" "longVision w1 = longVision w" "beforeEyes w1 = beforeEyes w"
    "car w1 = car w" "nonce w1 = nonce w"
proof -
  from measureFront_Some [OF assms] obtain k where "w1 = (frontBatch ^^ Suc k) w" by auto
  with frontBatches_keep [of "Suc k" w]
  show "issued w1 = issued w" "longVision w1 = longVision w" "beforeEyes w1 = beforeEyes w"
    "car w1 = car w" "nonce w1 = nonce w"
    by simp_all
qed

subsection \<open>Sensors that are steady, or silent\<close>

lemma mean_steady: "(\<forall>i. echo w s i = c) \<Longrightarrow> mean w s = int c"
proof -
  assume "\<forall>i. echo w s i = c"
  then have "sum_list (readings w s (batchSize w)) = int (batchSize w) * int c"
    by (simp add: readings_def sum_list_triv)
  moreover have "0 < batchSize w" using batchSize_range [of w] by simp
  ultimately show ?thesis by (simp add: mean_def)
qed

lemma mean_silent: "(\<forall>i. echo w s i = 0) \<Longrightarrow> mean w s = 0"
  by (simp add: mean_def readings_def)

lemma silent_never_echo: "(\<forall>i. echo w FrontSensor i = 0) \<Longrightarrow> \<not> firstEchoAt w k"
  by (simp add: firstEchoAt_def mean_silent echo_frontBatches)

lemma measureFront_steady:
  "(\<forall>i. echo w FrontSensor i = c) \<Longrightarrow> c \<noteq> 0 \<Longrightarrow>
   measureFrontDistance w = Some (int c, frontBatch w)"
  using measureFront_hit [of w] by (simp add: mean_steady)

lemma measureFront_silent:
  "(\<forall>i. echo w FrontSensor i = 0) \<Longrightarrow> measureFrontDistance w = None"
proof (cases "measureFrontDistance w")
  case None then show ?thesis .
next
  case (Some y)
  assume "\<forall>i. echo w FrontSensor i = 0"
  with measureFront_Some [OF Some] silent_never_echo [of w] show ?thesis by blast
qed

lemma echo_bench:
  "echo (bench f l r) FrontSensor i = f" "echo (bench f l r) LeftSensor i = l"
  "echo (bench f l r) RightSensor i = r"
  by (simp_all add: bench_def)

lemma measureFront_bench:
  "f \<noteq> 0 \<Longrightarrow> measureFrontDistance (bench f l r) = Some (int f, frontBatch (bench f l r))"
  using measureFront_hit [of "bench f l r"] by (simp add: mean_steady echo_bench)

lemma openEyesWide_bench:
  assumes "f \<noteq> 0"
  shows "\<exists>w'. openEyesWide (bench f l r) = Some w' \<and>
              front (eyes w') = int f \<and> left (eyes w') = int l \<and> right (eyes w') = int r"
proof -
  let ?w1 = "frontBatch (bench f l r)"
  let ?w' = "snd (measureRightDistance (snd (measureLeftDistance ?w1)))"
  have "openEyesWide (bench f l r) = Some ?w'"
    by (rule openEyesWide_eq [OF measureFront_bench [OF assms]])
  moreover have "mean ?w1 LeftSensor = int l"
    by (rule mean_steady) (simp add: echo_frontBatch echo_bench)
  moreover have "mean (snd (measureLeftDistance ?w1)) RightSensor = int r"
    by (rule mean_steady) (simp add: echo_after_left echo_frontBatch echo_bench)
  moreover have "front (eyes ?w1) = int f"
    by (simp add: front_frontBatch mean_steady echo_bench)
  ultimately show ?thesis
    by (simp add: eyes_after_sides)
qed

lemma mean_dropout_first: "mean (dropout 3 7) FrontSensor = 0"
  by (simp add: mean_def batchSize_eq readings_def dropout_def bench_def upt_rec)

lemma mean_dropout_second: "mean (frontBatch (dropout 3 7)) FrontSensor = 7"
  by (simp add: mean_def batchSize_eq readings_def frontBatch_eq afterBatch_def dropout_def bench_def upt_rec)

section \<open>The measured value\<close>

text \<open>
  C7. A measuring call takes \<open>N\<close> pings, with \<open>N\<close> drawn by \<open>random(3,6)\<close> and so 3, 4
  or 5, and computes the mean of the \<open>N\<close> readings by a division that truncates.
  \<open>measureLeftDistance\<close> and \<open>measureRightDistance\<close> store and return that mean whatever it
  is, 0 included. \<open>measureFrontDistance\<close> returns such a mean too: that of the first batch
  whose mean is not 0.
\<close>

theorem measured_value_is_mean:
  "int (batchSize w) = fst (arduino_random 3 6 w) \<and> 3 \<le> batchSize w \<and> batchSize w \<le> 5 \<and>
   length (readings w s (batchSize w)) = batchSize w \<and>
   fst (measureLeftDistance w) =
     c_div (sum_list (readings w LeftSensor (batchSize w))) (int (batchSize w)) \<and>
   left (eyes (snd (measureLeftDistance w))) = fst (measureLeftDistance w) \<and>
   fst (measureRightDistance w) =
     c_div (sum_list (readings w RightSensor (batchSize w))) (int (batchSize w)) \<and>
   right (eyes (snd (measureRightDistance w))) = fst (measureRightDistance w) \<and>
   (firstEchoAt w k \<longrightarrow>
      map_option fst (measureFrontDistance w) =
        Some (c_div (sum_list (readings ((frontBatch ^^ k) w) FrontSensor (batchSize ((frontBatch ^^ k) w))))
                (int (batchSize ((frontBatch ^^ k) w))))) \<and>
   (measureFrontDistance w = Some (cm, w') \<longrightarrow>
      (\<exists>n. firstEchoAt w n \<and>
        cm = c_div (sum_list (readings ((frontBatch ^^ n) w) FrontSensor (batchSize ((frontBatch ^^ n) w))))
                (int (batchSize ((frontBatch ^^ n) w)))))"
proof -
  have size: "int (batchSize w) = fst (arduino_random 3 6 w)"
    by (simp add: batchSize_eq arduino_random_3_6 zmod_int)
  have len: "length (readings w s (batchSize w)) = batchSize w"
    by (simp add: readings_def)
  have l: "fst (measureLeftDistance w) =
      c_div (sum_list (readings w LeftSensor (batchSize w))) (int (batchSize w))"
    "left (eyes (snd (measureLeftDistance w))) = fst (measureLeftDistance w)"
    by (simp_all add: measureLeftDistance_eq mean_as_c_div [symmetric])
  have r: "fst (measureRightDistance w) =
      c_div (sum_list (readings w RightSensor (batchSize w))) (int (batchSize w))"
    "right (eyes (snd (measureRightDistance w))) = fst (measureRightDistance w)"
    by (simp_all add: measureRightDistance_eq mean_as_c_div [symmetric])
  have f1: "map_option fst (measureFrontDistance w) =
        Some (c_div (sum_list (readings ((frontBatch ^^ k) w) FrontSensor (batchSize ((frontBatch ^^ k) w))))
                (int (batchSize ((frontBatch ^^ k) w))))" if "firstEchoAt w k"
    unfolding measureFront_returns [OF that] mean_as_c_div [symmetric] by simp
  have f2: "\<exists>n. firstEchoAt w n \<and>
        cm = c_div (sum_list (readings ((frontBatch ^^ n) w) FrontSensor (batchSize ((frontBatch ^^ n) w))))
                (int (batchSize ((frontBatch ^^ n) w)))" if "measureFrontDistance w = Some (cm, w')"
    using measureFront_Some [OF that] unfolding mean_as_c_div [symmetric] by auto
  from size batchSize_range [of w] len l r f1 f2 show ?thesis by blast
qed

theorem measured_value_is_mean_witness:
  "batchSize ramp = 4 \<and> readings ramp LeftSensor 4 = [10, 11, 12, 13] \<and>
   fst (measureLeftDistance ramp) = 11 \<and> fst (measureRightDistance ramp) = 11 \<and>
   fst (measureLeftDistance (bench 60 0 5)) = 0 \<and>
   firstEchoAt ramp 0 \<and> measureFrontDistance ramp = Some (11, frontBatch ramp) \<and>
   firstEchoAt (dropout 3 7) 1 \<and> map_option fst (measureFrontDistance (dropout 3 7)) = Some 7"
proof -
  have size: "batchSize ramp = 4" "batchSize (bench 60 0 5) = 3"
    "batchSize (frontBatch (dropout 3 7)) = 3"
    by (simp_all add: batchSize_eq ramp_def bench_def dropout_def frontBatch_eq afterBatch_def)
  have reads: "readings ramp s 4 = [10, 11, 12, 13]" for s
    by (simp add: readings_def ramp_def bench_def upt_rec)
  have silent: "readings (bench 60 0 5) LeftSensor 3 = [0, 0, 0]"
    by (simp add: readings_def bench_def upt_rec)
  have late: "readings (frontBatch (dropout 3 7)) FrontSensor 3 = [7, 7, 7]"
    by (simp add: readings_def dropout_def bench_def frontBatch_eq afterBatch_def batchSize_eq upt_rec)
  have first: "firstEchoAt ramp 0"
    by (simp add: firstEchoAt_0 mean_def size reads)
  have second: "firstEchoAt (dropout 3 7) 1"
    by (simp add: firstEchoAt_def mean_dropout_first mean_dropout_second)
  note here = measured_value_is_mean [of ramp LeftSensor 0 11 "frontBatch ramp"]
  from here have "fst (measureLeftDistance ramp) = 11" "fst (measureRightDistance ramp) = 11"
    by (simp_all add: size reads c_div_def)
  moreover from measured_value_is_mean [of "bench 60 0 5" LeftSensor 0 0 "bench 60 0 5"]
  have "fst (measureLeftDistance (bench 60 0 5)) = 0"
    by (simp add: size silent c_div_def)
  moreover from here first have "map_option fst (measureFrontDistance ramp) = Some 11"
    by (simp add: size reads c_div_def)
  then have "measureFrontDistance ramp = Some (11, frontBatch ramp)"
    using measureFront_returns [OF first] by simp
  moreover from measured_value_is_mean [of "dropout 3 7" FrontSensor 1 7 "dropout 3 7"] second
  have "map_option fst (measureFrontDistance (dropout 3 7)) = Some 7"
    by (simp add: size late c_div_def)
  ultimately show ?thesis using size(1) reads first second by simp
qed

text \<open>
  C3. \<open>measureFrontDistance\<close> never returns 0, on any readings of the front sensor: the
  value it returns is not 0 and is the \<open>front\<close> it stored. When the first \<open>k\<close> batches have
  mean 0 and the next one has not, it takes \<open>k + 1\<close> batches and returns the mean of the
  last one. When every batch has mean 0 it never returns.
\<close>

theorem measureFrontDistance_never_zero:
  "(measureFrontDistance w = Some (cm, w') \<longrightarrow> cm \<noteq> 0 \<and> front (eyes w') = cm) \<and>
   (firstEchoAt w k \<longrightarrow>
      measureFrontDistance w =
        Some (mean ((frontBatch ^^ k) w) FrontSensor, (frontBatch ^^ Suc k) w) \<and>
      mean ((frontBatch ^^ k) w) FrontSensor \<noteq> 0) \<and>
   ((\<forall>n. \<not> firstEchoAt w n) \<longrightarrow> measureFrontDistance w = None)"
proof (intro conjI impI)
  assume "measureFrontDistance w = Some (cm, w')"
  from measureFront_Some [OF this] obtain n where n: "firstEchoAt w n"
    "cm = mean ((frontBatch ^^ n) w) FrontSensor" "w' = (frontBatch ^^ Suc n) w"
    by auto
  from n(1,2) show "cm \<noteq> 0" by (simp add: firstEchoAt_def)
  from n(2,3) show "front (eyes w') = cm" by (simp add: front_frontBatch)
next
  assume "firstEchoAt w k"
  then show "measureFrontDistance w =
      Some (mean ((frontBatch ^^ k) w) FrontSensor, (frontBatch ^^ Suc k) w)"
    by (rule measureFront_returns)
next
  assume "firstEchoAt w k"
  then show "mean ((frontBatch ^^ k) w) FrontSensor \<noteq> 0" by (simp add: firstEchoAt_def)
next
  assume never: "\<forall>n. \<not> firstEchoAt w n"
  show "measureFrontDistance w = None"
  proof (cases "measureFrontDistance w")
    case None then show ?thesis .
  next
    case (Some y)
    from measureFront_Some [OF this] never show ?thesis by blast
  qed
qed

theorem measureFrontDistance_never_zero_witness:
  "firstEchoAt (dropout 3 7) 1 \<and>
   measureFrontDistance (dropout 3 7) = Some (7, (frontBatch ^^ Suc 1) (dropout 3 7)) \<and>
   front (eyes ((frontBatch ^^ Suc 1) (dropout 3 7))) = 7 \<and>
   (\<forall>n. \<not> firstEchoAt (bench 0 9 9) n) \<and>
   measureFrontDistance (bench 0 9 9) = None"
proof -
  have first: "firstEchoAt (dropout 3 7) 1"
    by (simp add: firstEchoAt_def mean_dropout_first mean_dropout_second)
  have silent: "\<forall>n. \<not> firstEchoAt (bench 0 9 9) n"
    by (simp add: silent_never_echo bench_def)
  note hit = measureFrontDistance_never_zero [of "dropout 3 7" 7 "(frontBatch ^^ Suc 1) (dropout 3 7)" 1]
  from hit first
  have ret: "measureFrontDistance (dropout 3 7) = Some (7, (frontBatch ^^ Suc 1) (dropout 3 7))"
    by (simp add: mean_dropout_second)
  with hit have "front (eyes ((frontBatch ^^ Suc 1) (dropout 3 7))) = 7"
    by blast
  moreover from measureFrontDistance_never_zero [of "bench 0 9 9" 0 "bench 0 9 9" 0] silent
  have "measureFrontDistance (bench 0 9 9) = None" by blast
  ultimately show ?thesis using first silent ret by blast
qed

section \<open>The gears\<close>

text \<open>
  C10. \<open>changeGear\<close> is defined on every \<open>int\<close>. It stores the speed of the gear (125, 150,
  175 and 200 for the gears 1 to 4), sets both motors to that speed and runs both forward,
  in this order, and does nothing else. A gear that is none of 1, 2, 3 and 4 does what
  gear 1 does.
\<close>

theorem changeGear_total:
  "changeGear gear w =
     w\<lparr>car := (car w)\<lparr>averageSpeed :=
              (if gear = 2 then 150 else if gear = 3 then 175 else if gear = 4 then 200 else 125)\<rparr>,
       issued := issued w @
         [SetSpeed LeftMotor (if gear = 2 then 150 else if gear = 3 then 175 else if gear = 4 then 200 else 125),
          SetSpeed RightMotor (if gear = 2 then 150 else if gear = 3 then 175 else if gear = 4 then 200 else 125),
          Run LeftMotor FORWARD, Run RightMotor FORWARD]\<rparr> \<and>
   averageSpeed (car (changeGear 1 w)) = 125 \<and>
   averageSpeed (car (changeGear 2 w)) = 150 \<and>
   averageSpeed (car (changeGear 3 w)) = 175 \<and>
   averageSpeed (car (changeGear 4 w)) = 200 \<and>
   (gear \<notin> {1, 2, 3, 4} \<longrightarrow> changeGear gear w = changeGear 1 w)"
  by (simp add: changeGear_def drive_def setSpeed_def run_def Let_def)

theorem changeGear_total_witness:
  "(7::int) \<notin> {1, 2, 3, 4} \<and> changeGear 7 (bench 60 5 5) = changeGear 1 (bench 60 5 5) \<and>
   (-1::int) \<notin> {1, 2, 3, 4} \<and> changeGear (-1) (bench 60 5 5) = changeGear 1 (bench 60 5 5) \<and>
   issued (changeGear 0 (bench 60 5 5)) =
     [SetSpeed LeftMotor 125, SetSpeed RightMotor 125, Run LeftMotor FORWARD, Run RightMotor FORWARD]"
proof -
  have out: "(7::int) \<notin> {1, 2, 3, 4}" "(-1::int) \<notin> {1, 2, 3, 4}"
    by simp_all
  from out(1) changeGear_total [of 7 "bench 60 5 5"]
  have "changeGear 7 (bench 60 5 5) = changeGear 1 (bench 60 5 5)" by blast
  moreover from out(2) changeGear_total [of "-1" "bench 60 5 5"]
  have "changeGear (-1) (bench 60 5 5) = changeGear 1 (bench 60 5 5)" by blast
  moreover from changeGear_total [of 0 "bench 60 5 5", THEN conjunct1]
  have "issued (changeGear 0 (bench 60 5 5)) =
     [SetSpeed LeftMotor 125, SetSpeed RightMotor 125, Run LeftMotor FORWARD, Run RightMotor FORWARD]"
    by (simp add: bench_def)
  ultimately show ?thesis using out by blast
qed

text \<open>
  C5. \<open>suggestGear\<close> answers by thresholds on the front distance \<open>d\<close> that it measures:
  gear 4 from 275 on, gear 3 from 200 to 274, gear 2 from 100 to 199 and gear 1 below 100;
  so 99 gives 1, 100 and 199 give 2, 200 and 274 give 3, 275 gives 4. A larger distance
  never gives a smaller gear.
\<close>

theorem suggestGear_thresholds:
  "(measureFrontDistance w = Some (d, w') \<longrightarrow>
      suggestGear w =
        Some (if d \<ge> 275 then 4 else if d \<ge> 200 then 3 else if d \<ge> 100 then 2 else 1, w')) \<and>
   (measureFrontDistance w = Some (d, w') \<and> 275 \<le> d \<longrightarrow> suggestGear w = Some (4, w')) \<and>
   (measureFrontDistance w = Some (d, w') \<and> 200 \<le> d \<and> d < 275 \<longrightarrow> suggestGear w = Some (3, w')) \<and>
   (measureFrontDistance w = Some (d, w') \<and> 100 \<le> d \<and> d < 200 \<longrightarrow> suggestGear w = Some (2, w')) \<and>
   (measureFrontDistance w = Some (d, w') \<and> d < 100 \<longrightarrow> suggestGear w = Some (1, w')) \<and>
   (measureFrontDistance w = Some (99, w') \<longrightarrow> suggestGear w = Some (1, w')) \<and>
   (measureFrontDistance w = Some (100, w') \<longrightarrow> suggestGear w = Some (2, w')) \<and>
   (measureFrontDistance w = Some (199, w') \<longrightarrow> suggestGear w = Some (2, w')) \<and>
   (measureFrontDistance w = Some (200, w') \<longrightarrow> suggestGear w = Some (3, w')) \<and>
   (measureFrontDistance w = Some (274, w') \<longrightarrow> suggestGear w = Some (3, w')) \<and>
   (measureFrontDistance w = Some (275, w') \<longrightarrow> suggestGear w = Some (4, w')) \<and>
   (measureFrontDistance w = Some (d, w') \<and> measureFrontDistance v = Some (e, v') \<and> d \<le> e \<and>
    suggestGear w = Some (g, w'') \<and> suggestGear v = Some (h, v'') \<longrightarrow> g \<le> h)"
proof -
  have rule: "suggestGear w =
      Some (if d \<ge> 275 then 4 else if d \<ge> 200 then 3 else if d \<ge> 100 then 2 else 1, w')"
    if "measureFrontDistance w = Some (d, w')" for w d w'
    using that by (simp add: suggestGear_def)
  have mono: "g \<le> h"
    if "measureFrontDistance w = Some (d, w')" "measureFrontDistance v = Some (e, v')" "d \<le> e"
      "suggestGear w = Some (g, w'')" "suggestGear v = Some (h, v'')"
    using that(3-5) unfolding rule [OF that(1)] rule [OF that(2)]
    by (simp split: if_splits)
  show ?thesis
    by (intro conjI impI; (elim conjE)?; ((simp add: rule; fail) | erule (4) mono))
qed

theorem suggestGear_thresholds_witness:
  "map_option fst (suggestGear (bench 99 0 0)) = Some 1 \<and>
   map_option fst (suggestGear (bench 100 0 0)) = Some 2 \<and>
   map_option fst (suggestGear (bench 199 0 0)) = Some 2 \<and>
   map_option fst (suggestGear (bench 200 0 0)) = Some 3 \<and>
   map_option fst (suggestGear (bench 274 0 0)) = Some 3 \<and>
   map_option fst (suggestGear (bench 275 0 0)) = Some 4 \<and>
   fst (the (suggestGear (bench 199 0 0))) \<le> fst (the (suggestGear (bench 200 0 0)))"
proof -
  note m = measureFront_bench [of _ 0 0, simplified]
  have "map_option fst (suggestGear (bench 99 0 0)) = Some 1"
    using suggestGear_thresholds [of "bench 99 0 0" 99 "frontBatch (bench 99 0 0)"] m [of 99]
    by simp
  moreover have "map_option fst (suggestGear (bench 100 0 0)) = Some 2"
    using suggestGear_thresholds [of "bench 100 0 0" 100 "frontBatch (bench 100 0 0)"] m [of 100]
    by simp
  moreover have a: "suggestGear (bench 199 0 0) = Some (2, frontBatch (bench 199 0 0))"
    using suggestGear_thresholds [of "bench 199 0 0" 199 "frontBatch (bench 199 0 0)"] m [of 199]
    by simp
  moreover have b: "suggestGear (bench 200 0 0) = Some (3, frontBatch (bench 200 0 0))"
    using suggestGear_thresholds [of "bench 200 0 0" 200 "frontBatch (bench 200 0 0)"] m [of 200]
    by simp
  moreover have "map_option fst (suggestGear (bench 274 0 0)) = Some 3"
    using suggestGear_thresholds [of "bench 274 0 0" 274 "frontBatch (bench 274 0 0)"] m [of 274]
    by simp
  moreover have "map_option fst (suggestGear (bench 275 0 0)) = Some 4"
    using suggestGear_thresholds [of "bench 275 0 0" 275 "frontBatch (bench 275 0 0)"] m [of 275]
    by simp
  moreover have "fst (the (suggestGear (bench 199 0 0))) \<le> fst (the (suggestGear (bench 200 0 0)))"
    using suggestGear_thresholds [of "bench 199 0 0" 199 "frontBatch (bench 199 0 0)"
        "bench 200 0 0" 200 "frontBatch (bench 200 0 0)" 2 "frontBatch (bench 199 0 0)"
        3 "frontBatch (bench 200 0 0)"] m [of 199] m [of 200] a b
    by simp
  ultimately show ?thesis by simp
qed

section \<open>The situations\<close>

lemmas situations =
  CLEAR_PATH_AHEAD_def PATH_CLOSING_UP_def PATH_BLOCKED_def NARROW_ROAD_LEFT_RIGHT_def
  CLEAR_PATH_LEFT_def CLEAR_PATH_RIGHT_def SEEK_ALTERNATE_ROUTE_def

text \<open>
  C1. On the distances \<open>f\<close>, \<open>l\<close> and \<open>r\<close> that \<open>openEyesWide\<close> sampled, \<open>commonSense\<close>
  returns by the first rule that matches: above 50 \<open>CLEAR_PATH_AHEAD\<close>; above 40 up to 50
  \<open>SEEK_ALTERNATE_ROUTE\<close>; above 30 up to 40 \<open>PATH_CLOSING_UP\<close>; up to 30, with both sides
  below 8 \<open>NARROW_ROAD_LEFT_RIGHT\<close>, with the left at least 8 and above the right
  \<open>CLEAR_PATH_LEFT\<close>, with the right at least 8 and above the left \<open>CLEAR_PATH_RIGHT\<close>. So
  51 gives \<open>CLEAR_PATH_AHEAD\<close>, 50 gives \<open>SEEK_ALTERNATE_ROUTE\<close>, (60, 5, 5) gives
  \<open>CLEAR_PATH_AHEAD\<close>, (25, 5, 5) gives \<open>NARROW_ROAD_LEFT_RIGHT\<close> and (25, 15, 5) gives
  \<open>CLEAR_PATH_LEFT\<close>.
\<close>

theorem commonSense_rules:
  assumes "openEyesWide w = Some w'"
    and "front (eyes w') = f" and "left (eyes w') = l" and "right (eyes w') = r"
  shows "(f > 50 \<longrightarrow> commonSense w = Some (Inr CLEAR_PATH_AHEAD, w')) \<and>
    (40 < f \<and> f \<le> 50 \<longrightarrow> commonSense w = Some (Inr SEEK_ALTERNATE_ROUTE, w')) \<and>
    (30 < f \<and> f \<le> 40 \<longrightarrow> commonSense w = Some (Inr PATH_CLOSING_UP, w')) \<and>
    (f \<le> 30 \<and> l < 8 \<and> r < 8 \<longrightarrow> commonSense w = Some (Inr NARROW_ROAD_LEFT_RIGHT, w')) \<and>
    (f \<le> 30 \<and> l \<ge> 8 \<and> l > r \<longrightarrow> commonSense w = Some (Inr CLEAR_PATH_LEFT, w')) \<and>
    (f \<le> 30 \<and> r \<ge> 8 \<and> r > l \<longrightarrow> commonSense w = Some (Inr CLEAR_PATH_RIGHT, w')) \<and>
    (f = 51 \<longrightarrow> commonSense w = Some (Inr CLEAR_PATH_AHEAD, w')) \<and>
    (f = 50 \<longrightarrow> commonSense w = Some (Inr SEEK_ALTERNATE_ROUTE, w')) \<and>
    (f = 60 \<and> l = 5 \<and> r = 5 \<longrightarrow> commonSense w = Some (Inr CLEAR_PATH_AHEAD, w')) \<and>
    (f = 25 \<and> l = 5 \<and> r = 5 \<longrightarrow> commonSense w = Some (Inr NARROW_ROAD_LEFT_RIGHT, w')) \<and>
    (f = 25 \<and> l = 15 \<and> r = 5 \<longrightarrow> commonSense w = Some (Inr CLEAR_PATH_LEFT, w'))"
  using assms by (simp add: commonSense_def)

theorem commonSense_rules_witness:
  "map_option fst (commonSense (bench 51 0 0)) = Some (Inr CLEAR_PATH_AHEAD) \<and>
   map_option fst (commonSense (bench 50 0 0)) = Some (Inr SEEK_ALTERNATE_ROUTE) \<and>
   map_option fst (commonSense (bench 35 0 0)) = Some (Inr PATH_CLOSING_UP) \<and>
   map_option fst (commonSense (bench 60 5 5)) = Some (Inr CLEAR_PATH_AHEAD) \<and>
   map_option fst (commonSense (bench 25 5 5)) = Some (Inr NARROW_ROAD_LEFT_RIGHT) \<and>
   map_option fst (commonSense (bench 25 15 5)) = Some (Inr CLEAR_PATH_LEFT) \<and>
   map_option fst (commonSense (bench 25 5 15)) = Some (Inr CLEAR_PATH_RIGHT)"
proof -
  have one: "map_option fst (commonSense (bench f l r)) = Some (Inr s)"
    if "f \<noteq> 0" and "\<And>w'. openEyesWide (bench f l r) = Some w' \<Longrightarrow> front (eyes w') = int f \<Longrightarrow>
        left (eyes w') = int l \<Longrightarrow> right (eyes w') = int r \<Longrightarrow>
        commonSense (bench f l r) = Some (Inr s, w')" for f l r s
  proof -
    from openEyesWide_bench [OF that(1), of l r] obtain w' where
      "openEyesWide (bench f l r) = Some w'" "front (eyes w') = int f"
      "left (eyes w') = int l" "right (eyes w') = int r" by blast
    from that(2) [OF this] show ?thesis by simp
  qed
  have "map_option fst (commonSense (bench 51 0 0)) = Some (Inr CLEAR_PATH_AHEAD)"
    by (rule one, simp) (use commonSense_rules in simp)
  moreover have "map_option fst (commonSense (bench 50 0 0)) = Some (Inr SEEK_ALTERNATE_ROUTE)"
    by (rule one, simp) (use commonSense_rules in simp)
  moreover have "map_option fst (commonSense (bench 35 0 0)) = Some (Inr PATH_CLOSING_UP)"
    by (rule one, simp) (use commonSense_rules in simp)
  moreover have "map_option fst (commonSense (bench 60 5 5)) = Some (Inr CLEAR_PATH_AHEAD)"
    by (rule one, simp) (use commonSense_rules in simp)
  moreover have "map_option fst (commonSense (bench 25 5 5)) = Some (Inr NARROW_ROAD_LEFT_RIGHT)"
    by (rule one, simp) (use commonSense_rules in simp)
  moreover have "map_option fst (commonSense (bench 25 15 5)) = Some (Inr CLEAR_PATH_LEFT)"
    by (rule one, simp) (use commonSense_rules in simp)
  moreover have "map_option fst (commonSense (bench 25 5 15)) = Some (Inr CLEAR_PATH_RIGHT)"
    by (rule one, simp) (use commonSense_rules in simp)
  ultimately show ?thesis by blast
qed

text \<open>
  C2. \<open>commonSense\<close> is not total. On the distances that \<open>openEyesWide\<close> sampled it
  reaches the end of its body with no \<open>return\<close> exactly when the front is at most 30 and the
  two sides are equal and at least 8; in every other case it returns one of the six
  situations of its \<open>return\<close> statements.
\<close>

theorem commonSense_falls_off_end:
  assumes "openEyesWide w = Some w'"
    and "front (eyes w') = f" and "left (eyes w') = l" and "right (eyes w') = r"
  shows "(commonSense w = Some (Inl MissingReturn, w') \<longleftrightarrow> f \<le> 30 \<and> l = r \<and> 8 \<le> l) \<and>
    (\<not> (f \<le> 30 \<and> l = r \<and> 8 \<le> l) \<longrightarrow>
       (\<exists>s. commonSense w = Some (Inr s, w') \<and>
            s \<in> {CLEAR_PATH_AHEAD, PATH_CLOSING_UP, NARROW_ROAD_LEFT_RIGHT, CLEAR_PATH_LEFT,
                 CLEAR_PATH_RIGHT, SEEK_ALTERNATE_ROUTE}))"
  using assms by (auto simp add: commonSense_def)

theorem commonSense_falls_off_end_witness:
  "map_option fst (commonSense (bench 25 10 10)) = Some (Inl MissingReturn) \<and>
   map_option fst (commonSense (bench 30 8 8)) = Some (Inl MissingReturn) \<and>
   map_option fst (commonSense (bench 25 10 11)) \<noteq> Some (Inl MissingReturn)"
proof -
  have tie: "map_option fst (commonSense (bench f l l)) = Some (Inl MissingReturn)"
    if "f \<noteq> 0" "f \<le> 30" "8 \<le> l" for f l
  proof -
    from openEyesWide_bench [OF that(1), of l l] obtain w' where w':
      "openEyesWide (bench f l l) = Some w'" "front (eyes w') = int f"
      "left (eyes w') = int l" "right (eyes w') = int l" by blast
    from commonSense_falls_off_end [OF this] that(2,3) show ?thesis by simp
  qed
  from openEyesWide_bench [of 25 10 11] obtain w' where w':
    "openEyesWide (bench 25 10 11) = Some w'" "front (eyes w') = 25"
    "left (eyes w') = 10" "right (eyes w') = 11" by auto
  from commonSense_falls_off_end [OF this]
  have "map_option fst (commonSense (bench 25 10 11)) \<noteq> Some (Inl MissingReturn)" by auto
  with tie [of 25 10] tie [of 30 8] show ?thesis by simp
qed

text \<open>
  C9. Neither \<open>commonSense\<close> nor \<open>seekAlternateRoute\<close> returns \<open>PATH_BLOCKED\<close>, whatever the
  sensors read: the constant is declared and no \<open>return\<close> statement names it.
\<close>

theorem PATH_BLOCKED_never_returned:
  "commonSense w \<noteq> Some (Inr PATH_BLOCKED, w') \<and>
   seekAlternateRoute w \<noteq> Some (PATH_BLOCKED, w')"
  by (simp add: commonSense_def seekAlternateRoute_def situations split: option.splits)

text \<open>
  C6. On the distances that \<open>openEyesWide\<close> sampled, \<open>seekAlternateRoute\<close> returns
  \<open>CLEAR_PATH_LEFT\<close> or \<open>CLEAR_PATH_RIGHT\<close> exactly when the front is at most 40 and one
  side is above 80: the left when it is above the right, the right otherwise. In every
  other case it returns \<open>NARROW_ROAD_LEFT_RIGHT\<close>.
\<close>

theorem seekAlternateRoute_rule:
  assumes "openEyesWide w = Some w'"
    and "front (eyes w') = f" and "left (eyes w') = l" and "right (eyes w') = r"
  shows "(f \<le> 40 \<and> (l > 80 \<or> r > 80) \<and> l > r \<longrightarrow>
       seekAlternateRoute w = Some (CLEAR_PATH_LEFT, w')) \<and>
    (f \<le> 40 \<and> (l > 80 \<or> r > 80) \<and> l \<le> r \<longrightarrow>
       seekAlternateRoute w = Some (CLEAR_PATH_RIGHT, w')) \<and>
    (\<not> (f \<le> 40 \<and> (l > 80 \<or> r > 80)) \<longrightarrow>
       seekAlternateRoute w = Some (NARROW_ROAD_LEFT_RIGHT, w')) \<and>
    (seekAlternateRoute w = Some (CLEAR_PATH_LEFT, w') \<or>
     seekAlternateRoute w = Some (CLEAR_PATH_RIGHT, w') \<longleftrightarrow> f \<le> 40 \<and> (l > 80 \<or> r > 80))"
  using assms by (auto simp add: seekAlternateRoute_def situations)

theorem seekAlternateRoute_rule_witness:
  "map_option fst (seekAlternateRoute (bench 35 90 20)) = Some CLEAR_PATH_LEFT \<and>
   map_option fst (seekAlternateRoute (bench 35 20 90)) = Some CLEAR_PATH_RIGHT \<and>
   map_option fst (seekAlternateRoute (bench 35 90 90)) = Some CLEAR_PATH_RIGHT \<and>
   map_option fst (seekAlternateRoute (bench 35 80 80)) = Some NARROW_ROAD_LEFT_RIGHT \<and>
   map_option fst (seekAlternateRoute (bench 41 90 20)) = Some NARROW_ROAD_LEFT_RIGHT"
proof -
  have one: "map_option fst (seekAlternateRoute (bench f l r)) = Some s"
    if "f \<noteq> 0" and "\<And>w'. openEyesWide (bench f l r) = Some w' \<Longrightarrow> front (eyes w') = int f \<Longrightarrow>
        left (eyes w') = int l \<Longrightarrow> right (eyes w') = int r \<Longrightarrow>
        seekAlternateRoute (bench f l r) = Some (s, w')" for f l r s
  proof -
    from openEyesWide_bench [OF that(1), of l r] obtain w' where
      "openEyesWide (bench f l r) = Some w'" "front (eyes w') = int f"
      "left (eyes w') = int l" "right (eyes w') = int r" by blast
    from that(2) [OF this] show ?thesis by simp
  qed
  have "map_option fst (seekAlternateRoute (bench 35 90 20)) = Some CLEAR_PATH_LEFT"
    by (rule one, simp) (use seekAlternateRoute_rule in simp)
  moreover have "map_option fst (seekAlternateRoute (bench 35 20 90)) = Some CLEAR_PATH_RIGHT"
    by (rule one, simp) (use seekAlternateRoute_rule in simp)
  moreover have "map_option fst (seekAlternateRoute (bench 35 90 90)) = Some CLEAR_PATH_RIGHT"
    by (rule one, simp) (use seekAlternateRoute_rule in simp)
  moreover have "map_option fst (seekAlternateRoute (bench 35 80 80)) = Some NARROW_ROAD_LEFT_RIGHT"
    by (rule one, simp) (use seekAlternateRoute_rule in simp)
  moreover have "map_option fst (seekAlternateRoute (bench 41 90 20)) = Some NARROW_ROAD_LEFT_RIGHT"
    by (rule one, simp) (use seekAlternateRoute_rule in simp)
  ultimately show ?thesis by blast
qed

section \<open>The stuck monitor\<close>

text \<open>
  C8. \<open>rescueMission\<close> changes nothing while the clock is at most 5000 ms past \<open>nonce\<close>.
  When it is further, and the front measurement returns, the mission returns with the three
  distances it sampled at its start in \<open>beforeEyes\<close> and with \<open>nonce\<close> at the time of its
  end, whether it went through the recovery or not. It does not return when the front
  measurement does not.
\<close>

theorem rescueMission_baseline:
  "(millis w - nonce w \<le> 5000 \<longrightarrow> rescueMission w = Some w) \<and>
   (5000 < millis w - nonce w \<and> measureFrontDistance w = Some (cf, w1) \<and>
    measureLeftDistance w1 = (cl, w2) \<and> measureRightDistance w2 = (cr, w3) \<longrightarrow>
      map_option beforeEyes (rescueMission w) = Some (cf, cl, cr) \<and>
      map_option nonce (rescueMission w) = map_option millis (rescueMission w) \<and>
      rescueMission w \<noteq> None) \<and>
   (5000 < millis w - nonce w \<and> measureFrontDistance w = None \<longrightarrow> rescueMission w = None)"
proof (intro conjI impI)
  assume "millis w - nonce w \<le> 5000"
  then show "rescueMission w = Some w"
    by (simp add: rescueMission_def not_less [symmetric])
next
  assume "5000 < millis w - nonce w \<and> measureFrontDistance w = None"
  then show "rescueMission w = None"
    by (simp add: rescueMission_def)
next
  assume a: "5000 < millis w - nonce w \<and> measureFrontDistance w = Some (cf, w1) \<and>
    measureLeftDistance w1 = (cl, w2) \<and> measureRightDistance w2 = (cr, w3)"
  then show "map_option beforeEyes (rescueMission w) = Some (cf, cl, cr)"
    by (simp add: rescueMission_def Let_def split_beta)
  from a show "map_option nonce (rescueMission w) = map_option millis (rescueMission w)"
    by (simp add: rescueMission_def Let_def split_beta)
  from a show "rescueMission w \<noteq> None"
    by (simp add: rescueMission_def Let_def split_beta)
qed

theorem rescueMission_baseline_witness:
  "rescueMission (bench 60 20 30) = Some (bench 60 20 30) \<and>
   (100::32 word) - (- 200) \<le> 5000 \<and>
   rescueMission ((bench 60 20 30)\<lparr>nonce := - 200, millis := 100\<rparr>) =
     Some ((bench 60 20 30)\<lparr>nonce := - 200, millis := 100\<rparr>) \<and>
   map_option beforeEyes (rescueMission (overdue 0 0 (bench 60 20 30))) = Some (60, 20, 30) \<and>
   map_option nonce (rescueMission (overdue 0 0 (bench 60 20 30))) =
     map_option millis (rescueMission (overdue 0 0 (bench 60 20 30))) \<and>
   rescueMission (overdue 0 0 (bench 60 20 30)) \<noteq> None \<and>
   rescueMission (overdue 0 0 (bench 0 9 9)) = None"
proof -
  let ?w = "overdue 0 0 (bench 60 20 30)"
  let ?w1 = "frontBatch ?w"
  let ?w2 = "snd (measureLeftDistance ?w1)"
  let ?w3 = "snd (measureRightDistance ?w2)"
  have idle: "millis (bench 60 20 30) - nonce (bench 60 20 30) \<le> 5000"
    by (simp add: bench_def)
  have wrapped: "(100::32 word) - (- 200) \<le> 5000"
    by simp
  have due: "5000 < millis (overdue b c (bench f l r)) - nonce (overdue b c (bench f l r))" for b c f l r
    by (simp add: overdue_def)
  have ech: "echo (overdue b c (bench f l r)) = echo (bench f l r)" for b c f l r
    by (simp add: overdue_def)
  have f: "measureFrontDistance ?w = Some (60, ?w1)"
    using measureFront_steady [of ?w 60] by (simp add: ech echo_bench)
  have l: "measureLeftDistance ?w1 = (20, ?w2)"
    by (simp add: prod_eq_iff fst_measureLeft mean_steady [of _ _ 20] echo_frontBatch ech echo_bench)
  have r: "measureRightDistance ?w2 = (30, ?w3)"
    by (simp add: prod_eq_iff fst_measureRight mean_steady [of _ _ 30] echo_after_left
        echo_frontBatch ech echo_bench)
  have dead: "measureFrontDistance (overdue 0 0 (bench 0 9 9)) = None"
    by (rule measureFront_silent) (simp add: ech echo_bench)
  from rescueMission_baseline [of "bench 60 20 30"] idle
  have "rescueMission (bench 60 20 30) = Some (bench 60 20 30)" by blast
  moreover from rescueMission_baseline [of "(bench 60 20 30)\<lparr>nonce := - 200, millis := 100\<rparr>"] wrapped
  have "rescueMission ((bench 60 20 30)\<lparr>nonce := - 200, millis := 100\<rparr>) =
     Some ((bench 60 20 30)\<lparr>nonce := - 200, millis := 100\<rparr>)" by simp
  moreover from rescueMission_baseline [of ?w 60 ?w1 20 ?w2 30 ?w3] due f l r
  have "map_option beforeEyes (rescueMission ?w) = Some (60, 20, 30) \<and>
    map_option nonce (rescueMission ?w) = map_option millis (rescueMission ?w) \<and>
    rescueMission ?w \<noteq> None" by blast
  moreover from rescueMission_baseline [of "overdue 0 0 (bench 0 9 9)"] due dead
  have "rescueMission (overdue 0 0 (bench 0 9 9)) = None" by blast
  ultimately show ?thesis using wrapped by blast
qed

subsection \<open>The recovery\<close>

lemma mean_same: "sensors a = sensors b \<Longrightarrow> mean a s = mean b s"
  by (simp add: sensors_def mean_def batchSize_eq readings_def)

lemma sensors_afterBatch_same:
  "sensors a = sensors b \<Longrightarrow> sensors (afterBatch s a) = sensors (afterBatch s b)"
  by (simp add: sensors_def afterBatch_def batchSize_eq)

lemma freshSides_same: "sensors a = sensors b \<Longrightarrow> freshSides a = freshSides b"
proof -
  assume s: "sensors a = sensors b"
  then have "leftOperandFirst a = leftOperandFirst b" by (simp add: sensors_def)
  with s mean_same [OF s] mean_same [OF sensors_afterBatch_same [OF s]] show ?thesis
    by (simp add: freshSides_def)
qed

lemma sensors_measureLeft:
  "sensors (snd (measureLeftDistance w)) = sensors (afterBatch LeftSensor w)"
  by (simp add: measureLeftDistance_eq sensors_def afterBatch_def)

lemma sensors_measureRight:
  "sensors (snd (measureRightDistance w)) = sensors (afterBatch RightSensor w)"
  by (simp add: measureRightDistance_eq sensors_def afterBatch_def)

lemma compareSides_eq:
  "fst (compareSides w) \<longleftrightarrow> fst (freshSides w) > snd (freshSides w)"
proof (cases "leftOperandFirst w")
  case True
  then show ?thesis
    by (simp add: compareSides_def freshSides_def split_beta fst_measureLeft fst_measureRight
        mean_same [OF sensors_measureLeft])
next
  case False
  then show ?thesis
    by (simp add: compareSides_def freshSides_def split_beta fst_measureLeft fst_measureRight
        mean_same [OF sensors_measureRight])
qed

lemma compareSides_keeps:
  "issued (snd (compareSides w)) = issued w"
  "car (snd (compareSides w)) = car w"
  by (simp_all add: compareSides_def split_beta measureLeft_keeps measureRight_keeps)

lemma eyes_compareSides:
  "left (eyes (snd (compareSides w))) = fst (freshSides w)"
  "right (eyes (snd (compareSides w))) = snd (freshSides w)"
  by (simp_all add: compareSides_def freshSides_def split_beta eyes_measureLeft eyes_measureRight
      mean_same [OF sensors_measureLeft] mean_same [OF sensors_measureRight])

lemma freshSides_longVision: "freshSides (w\<lparr>longVision := c\<rparr>) = freshSides w"
  by (rule freshSides_same) (simp add: sensors_def)

lemma freshSides_steady:
  "(\<forall>i. echo w LeftSensor i = l) \<Longrightarrow> (\<forall>i. echo w RightSensor i = r) \<Longrightarrow>
   freshSides w = (int l, int r)"
  by (simp add: freshSides_def mean_steady afterBatch_def)

lemma maneuver_keeps_sensors:
  "sensors (delay ms w) = sensors w"
  "sensors (changeGear gear w) = sensors w"
  "sensors (reverse w) = sensors w"
  "sensors (w\<lparr>longVision := c\<rparr>) = sensors w"
  by (simp_all add: sensors_def delay_def changeGear_def drive_def setSpeed_def run_def reverse_def Let_def)

lemma issued_steps:
  "issued (delay ms w) = issued w"
  "issued (changeGear 1 w) = issued w @
     [SetSpeed LeftMotor 125, SetSpeed RightMotor 125, Run LeftMotor FORWARD, Run RightMotor FORWARD]"
  "issued (reverse w) = issued w @ [Run LeftMotor BACKWARD, Run RightMotor BACKWARD]"
  "issued (leftUTurn w) = issued w @
     [Run LeftMotor RELEASE, Run RightMotor RELEASE,
      SetSpeed LeftMotor (maxSpeed (car w)), SetSpeed RightMotor (maxSpeed (car w)),
      Run LeftMotor BACKWARD, Run RightMotor FORWARD, Run LeftMotor RELEASE, Run RightMotor RELEASE]"
  "issued (rightUTurn w) = issued w @
     [Run LeftMotor RELEASE, Run RightMotor RELEASE,
      SetSpeed LeftMotor (maxSpeed (car w)), SetSpeed RightMotor (maxSpeed (car w)),
      Run LeftMotor FORWARD, Run RightMotor BACKWARD, Run LeftMotor RELEASE, Run RightMotor RELEASE]"
  by (simp_all add: delay_def changeGear_def drive_def setSpeed_def run_def reverse_def neutral_def
      setTopSpeed_def leftUTurn_def rightUTurn_def Let_def)

lemma maxSpeed_steps:
  "maxSpeed (car (delay ms w)) = maxSpeed (car w)"
  "maxSpeed (car (changeGear gear w)) = maxSpeed (car w)"
  "maxSpeed (car (reverse w)) = maxSpeed (car w)"
  "maxSpeed (car (w\<lparr>longVision := c\<rparr>)) = maxSpeed (car w)"
  by (simp_all add: delay_def changeGear_def drive_def setSpeed_def run_def reverse_def Let_def)

lemma eyes_turns:
  "eyes (leftUTurn w) = eyes w" "eyes (rightUTurn w) = eyes w"
  by (simp_all add: delay_def setSpeed_def run_def neutral_def
      setTopSpeed_def leftUTurn_def rightUTurn_def Let_def)

text \<open>The block of the recovery, from \<open>delay(50)\<close> to \<open>longVision = 0\<close>.\<close>

lemma recovery_block:
  fixes v :: state
  defines "after \<equiv> (case compareSides (delay 1000 (reverse (changeGear 1 (delay 50 v)))) of
      (leftWider, w) \<Rightarrow> (if leftWider then leftUTurn w else rightUTurn w)\<lparr>longVision := 0\<rparr>)"
  shows "longVision after = 0"
    and "issued after =
      issued v @ recoveryManeuver (maxSpeed (car v)) (fst (freshSides v) > snd (freshSides v))"
proof -
  let ?u = "delay 1000 (reverse (changeGear 1 (delay 50 v)))"
  have s: "sensors ?u = sensors v"
    by (simp add: maneuver_keeps_sensors)
  have b: "fst (compareSides ?u) \<longleftrightarrow> fst (freshSides v) > snd (freshSides v)"
    by (simp add: compareSides_eq freshSides_same [OF s])
  show "longVision after = 0"
    by (simp add: after_def split_beta)
  show "issued after =
      issued v @ recoveryManeuver (maxSpeed (car v)) (fst (freshSides v) > snd (freshSides v))"
    by (simp add: after_def split_beta b issued_steps compareSides_keeps maxSpeed_steps
        recoveryManeuver_def)
qed

lemma mission_on_bench:
  assumes "echo w = echo (bench f l r)" and "f \<noteq> 0"
  defines "w1 \<equiv> frontBatch w"
  defines "w2 \<equiv> snd (measureLeftDistance (frontBatch w))"
  defines "w3 \<equiv> snd (measureRightDistance (snd (measureLeftDistance (frontBatch w))))"
  shows "measureFrontDistance w = Some (int f, w1)"
    and "measureLeftDistance w1 = (int l, w2)"
    and "measureRightDistance w2 = (int r, w3)"
    and "freshSides w3 = (int l, int r)"
    and "echo w3 = echo (bench f l r)"
proof -
  show "measureFrontDistance w = Some (int f, w1)"
    unfolding w1_def using measureFront_steady [of w f] assms(1,2) by (simp add: echo_bench)
  show "measureLeftDistance w1 = (int l, w2)"
    unfolding w1_def w2_def
    by (simp add: prod_eq_iff fst_measureLeft mean_steady [of _ _ l] echo_frontBatch assms(1) echo_bench)
  show "measureRightDistance w2 = (int r, w3)"
    unfolding w2_def w3_def
    by (simp add: prod_eq_iff fst_measureRight mean_steady [of _ _ r] echo_after_left
        echo_frontBatch assms(1) echo_bench)
  show "echo w3 = echo (bench f l r)"
    unfolding w3_def by (simp add: echo_after_right echo_after_left echo_frontBatch assms(1))
  then show "freshSides w3 = (int l, int r)"
    by (intro freshSides_steady) (simp_all add: echo_bench)
qed

lemma delay_fields:
  "echo (delay ms w) = echo w" "nonce (delay ms w) = nonce w"
  "millis (delay ms w) = millis w + of_nat ms" "beforeEyes (delay ms w) = beforeEyes w"
  "longVision (delay ms w) = longVision w" "issued (delay ms w) = issued w"
  "car (delay ms w) = car w"
  by (simp_all add: delay_def)

text \<open>
  C4. A mission that fires and finds the front distance within 10 of the one before it:
  \<^item> with the front above 100 and within 5, and a counter below 2, it adds 1 to the counter,
    issues no motor command and leaves the car alone;
  \<^item> with the front above 100 and within 5, and a counter of 2 or more, or with the front
    below 100 whatever the counter, it issues the recovery (gear 1, reverse, U-turn to the
    side whose fresh sample is larger, to the right on a tie) and sets the counter to 0.
  So from 0, with 120 before and 118 now each time, the counter goes to 1, to 2, and at the
  third mission the recovery runs and the counter is 0 again.
\<close>

theorem rescueMission_stagnation:
  assumes "5000 < millis w - nonce w"
    and "measureFrontDistance w = Some (cf, w1)"
    and "measureLeftDistance w1 = (cl, w2)" and "measureRightDistance w2 = (cr, w3)"
    and "\<bar>fst (beforeEyes w) - cf\<bar> \<le> 10"
  shows "(100 < cf \<and> \<bar>fst (beforeEyes w) - cf\<bar> \<le> 5 \<and> longVision w < 2 \<longrightarrow>
       rescueMission w =
         Some (w3\<lparr>longVision := longVision w + 1, nonce := millis w3, beforeEyes := (cf, cl, cr)\<rparr>) \<and>
       issued w3 = issued w \<and> car w3 = car w) \<and>
    (cf < 100 \<or> 100 < cf \<and> \<bar>fst (beforeEyes w) - cf\<bar> \<le> 5 \<and> 2 \<le> longVision w \<longrightarrow>
       map_option longVision (rescueMission w) = Some 0 \<and>
       map_option issued (rescueMission w) =
         Some (issued w @ recoveryManeuver (maxSpeed (car w)) (fst (freshSides w3) > snd (freshSides w3)))) \<and>
    (fst (beforeEyes w) = 120 \<and> cf = 118 \<and> longVision w = 0 \<longrightarrow>
       map_option longVision (rescueMission w) = Some 1 \<and>
       map_option issued (rescueMission w) = Some (issued w)) \<and>
    (fst (beforeEyes w) = 120 \<and> cf = 118 \<and> longVision w = 1 \<longrightarrow>
       map_option longVision (rescueMission w) = Some 2 \<and>
       map_option issued (rescueMission w) = Some (issued w)) \<and>
    (fst (beforeEyes w) = 120 \<and> cf = 118 \<and> longVision w = 2 \<longrightarrow>
       map_option longVision (rescueMission w) = Some 0 \<and>
       map_option issued (rescueMission w) =
         Some (issued w @ recoveryManeuver (maxSpeed (car w)) (fst (freshSides w3) > snd (freshSides w3))))"
proof -
  have w2: "w2 = snd (measureLeftDistance w1)" and w3: "w3 = snd (measureRightDistance w2)"
    using assms(3,4) by simp_all
  have keep: "issued w3 = issued w" "car w3 = car w" "longVision w3 = longVision w"
    "beforeEyes w3 = beforeEyes w"
    by (simp_all add: w2 w3 measureLeft_keeps measureRight_keeps measureFront_keeps [OF assms(2)])
  have count: "rescueMission w =
      Some (w3\<lparr>longVision := longVision w + 1, nonce := millis w3, beforeEyes := (cf, cl, cr)\<rparr>)"
    if "100 < cf" "\<bar>fst (beforeEyes w) - cf\<bar> \<le> 5" "longVision w < 2"
    using assms that by (simp add: rescueMission_def Let_def keep)
  have rescue:
    "map_option longVision (rescueMission w) = Some 0 \<and>
     map_option issued (rescueMission w) =
       Some (issued w @ recoveryManeuver (maxSpeed (car w)) (fst (freshSides w3) > snd (freshSides w3)))"
    if "cf < 100 \<or> 100 < cf \<and> \<bar>fst (beforeEyes w) - cf\<bar> \<le> 5 \<and> 2 \<le> longVision w"
  proof -
    have go: "longVision (if cf > 100 \<and> \<bar>fst (beforeEyes w) - cf\<bar> \<le> 5
              then w3\<lparr>longVision := longVision w3 + 1\<rparr> else w3) > 2 \<or> cf < 100"
      using that by (auto simp add: keep)
    from assms go show ?thesis
      by (simp add: rescueMission_def keep Let_def recovery_block freshSides_longVision)
  qed
  have counted: "map_option longVision (rescueMission w) = Some (longVision w + 1) \<and>
      map_option issued (rescueMission w) = Some (issued w)"
    if "100 < cf" "\<bar>fst (beforeEyes w) - cf\<bar> \<le> 5" "longVision w < 2"
    unfolding count [OF that] by (simp add: keep)
  show ?thesis
  proof (intro conjI impI; (elim conjE)?)
    assume "100 < cf" "\<bar>fst (beforeEyes w) - cf\<bar> \<le> 5" "longVision w < 2"
    then show "rescueMission w =
        Some (w3\<lparr>longVision := longVision w + 1, nonce := millis w3, beforeEyes := (cf, cl, cr)\<rparr>)"
      by (rule count)
  next
    show "issued w3 = issued w" "car w3 = car w" by (rule keep)+
  next
    assume a: "cf < 100 \<or> 100 < cf \<and> \<bar>fst (beforeEyes w) - cf\<bar> \<le> 5 \<and> 2 \<le> longVision w"
    from rescue [OF a] show "map_option longVision (rescueMission w) = Some 0"
      "map_option issued (rescueMission w) =
         Some (issued w @ recoveryManeuver (maxSpeed (car w)) (fst (freshSides w3) > snd (freshSides w3)))"
      by simp_all
  next
    assume a: "fst (beforeEyes w) = 120" "cf = 118" "longVision w = 0"
    with counted show "map_option longVision (rescueMission w) = Some 1"
      "map_option issued (rescueMission w) = Some (issued w)" by simp_all
  next
    assume a: "fst (beforeEyes w) = 120" "cf = 118" "longVision w = 1"
    with counted show "map_option longVision (rescueMission w) = Some 2"
      "map_option issued (rescueMission w) = Some (issued w)" by simp_all
  next
    assume a: "fst (beforeEyes w) = 120" "cf = 118" "longVision w = 2"
    with rescue show "map_option longVision (rescueMission w) = Some 0"
      "map_option issued (rescueMission w) =
         Some (issued w @ recoveryManeuver (maxSpeed (car w)) (fst (freshSides w3) > snd (freshSides w3)))"
      by simp_all
  qed
qed

theorem rescueMission_stagnation_witness:
  "map_option longVision (rescueMission (overdue 120 0 (bench 118 40 30))) = Some 1 \<and>
   map_option issued (rescueMission (overdue 120 0 (bench 118 40 30))) = Some [] \<and>
   map_option longVision (rescueMission (overdue 120 1 (bench 118 40 30))) = Some 2 \<and>
   map_option issued (rescueMission (overdue 120 1 (bench 118 40 30))) = Some [] \<and>
   map_option longVision (rescueMission (overdue 120 2 (bench 118 40 30))) = Some 0 \<and>
   map_option issued (rescueMission (overdue 120 2 (bench 118 40 30))) =
     Some (recoveryManeuver 250 True) \<and>
   map_option longVision (rescueMission (overdue 55 1 (bench 50 30 30))) = Some 0 \<and>
   map_option issued (rescueMission (overdue 55 1 (bench 50 30 30))) =
     Some (recoveryManeuver 250 False) \<and>
   Option.bind (rescueMission (overdue 120 0 (bench 118 40 30))) (\<lambda>s1.
        Option.bind (rescueMission (delay 5001 s1)) (\<lambda>s2.
          map_option (\<lambda>s3. (longVision s1, issued s1, longVision s2, issued s2, longVision s3, issued s3))
            (rescueMission (delay 5001 s2)))) =
      Some (1, [], 2, [], 0, recoveryManeuver 250 True)"
proof -
  have run: "Option.bind (rescueMission (overdue 120 0 (bench 118 40 30))) (\<lambda>s1.
         Option.bind (rescueMission (delay 5001 s1)) (\<lambda>s2.
           map_option (\<lambda>s3. (longVision s1, issued s1, longVision s2, issued s2, longVision s3, issued s3))
             (rescueMission (delay 5001 s2)))) =
       Some (1, [], 2, [], 0, recoveryManeuver 250 True)"
  proof -
    let ?W3 = "\<lambda>w. snd (measureRightDistance (snd (measureLeftDistance (frontBatch w))))"
    let ?next = "\<lambda>w c. (?W3 w)\<lparr>longVision := c, nonce := millis (?W3 w), beforeEyes := (118, 40, 30)\<rparr>"
    let ?s0 = "overdue 120 0 (bench 118 40 30)"
    let ?s1 = "?next ?s0 1"
    let ?s2 = "?next (delay 5001 ?s1) 2"
    have kept: "issued (?W3 w) = issued w" "car (?W3 w) = car w" for w
      by (simp_all add: measureRight_keeps measureLeft_keeps frontBatch_keeps)
    have e0: "echo ?s0 = echo (bench 118 40 30)"
      by (simp add: overdue_def)
    note m0 = mission_on_bench [OF e0, simplified]
    have d0: "5000 < millis ?s0 - nonce ?s0" by (simp add: overdue_def)
    have n0: "\<bar>fst (beforeEyes ?s0) - 118\<bar> \<le> 10" by (simp add: overdue_def)
    have r0: "rescueMission ?s0 = Some ?s1"
      using rescueMission_stagnation [OF d0 m0(1-3) n0] by (simp add: overdue_def)
    have e1: "echo (delay 5001 ?s1) = echo (bench 118 40 30)"
      by (simp add: delay_fields m0(5))
    note m1 = mission_on_bench [OF e1, simplified]
    have d1: "5000 < millis (delay 5001 ?s1) - nonce (delay 5001 ?s1)" by (simp add: delay_fields)
    have n1: "\<bar>fst (beforeEyes (delay 5001 ?s1)) - 118\<bar> \<le> 10" by (simp add: delay_fields)
    have r1: "rescueMission (delay 5001 ?s1) = Some ?s2"
      using rescueMission_stagnation [OF d1 m1(1-3) n1] by (simp add: delay_fields)
    have e2: "echo (delay 5001 ?s2) = echo (bench 118 40 30)"
      by (simp add: delay_fields m1(5))
    note m2 = mission_on_bench [OF e2, simplified]
    have d2: "5000 < millis (delay 5001 ?s2) - nonce (delay 5001 ?s2)" by (simp add: delay_fields)
    have n2: "\<bar>fst (beforeEyes (delay 5001 ?s2)) - 118\<bar> \<le> 10" by (simp add: delay_fields)
    have i0: "issued ?s0 = []" "maxSpeed (car ?s0) = 250"
      by (simp_all add: overdue_def bench_def)
    have r2: "map_option longVision (rescueMission (delay 5001 ?s2)) = Some 0 \<and>
        map_option issued (rescueMission (delay 5001 ?s2)) = Some (recoveryManeuver 250 True)"
      using rescueMission_stagnation [OF d2 m2(1-3) n2] by (simp add: m2(4) delay_fields kept i0)
    then obtain s3 where s3: "rescueMission (delay 5001 ?s2) = Some s3" "longVision s3 = 0"
      "issued s3 = recoveryManeuver 250 True"
      by auto
    show ?thesis
      by (simp add: r0 r1 s3 kept i0 delay_fields)
  qed
  have due: "5000 < millis (overdue b c (bench f l r)) - nonce (overdue b c (bench f l r))"
    for b c f l r
    by (simp add: overdue_def)
  have ech: "echo (overdue b c (bench f l r)) = echo (bench f l r)" for b c f l r
    by (simp add: overdue_def)
  have cf: "measureFrontDistance (overdue b c (bench f l r)) =
      Some (int f, frontBatch (overdue b c (bench f l r)))" if "f \<noteq> 0" for b c f l r
    using measureFront_steady [of "overdue b c (bench f l r)" f] that by (simp add: ech echo_bench)
  have cl: "measureLeftDistance (frontBatch (overdue b c (bench f l r))) =
      (int l, snd (measureLeftDistance (frontBatch (overdue b c (bench f l r)))))" for b c f l r
    by (simp add: prod_eq_iff fst_measureLeft mean_steady [of _ _ l] echo_frontBatch ech echo_bench)
  have cr: "measureRightDistance (snd (measureLeftDistance (frontBatch (overdue b c (bench f l r))))) =
      (int r, snd (measureRightDistance (snd (measureLeftDistance (frontBatch (overdue b c (bench f l r)))))))"
    for b c f l r
    by (simp add: prod_eq_iff fst_measureRight mean_steady [of _ _ r] echo_after_left
        echo_frontBatch ech echo_bench)
  have fresh: "freshSides (snd (measureRightDistance (snd (measureLeftDistance
      (frontBatch (overdue b c (bench f l r))))))) = (int l, int r)" for b c f l r
    by (rule freshSides_steady)
      (simp_all add: echo_after_right echo_after_left echo_frontBatch ech echo_bench)
  have start: "fst (beforeEyes (overdue b c (bench f l r))) = b"
    "longVision (overdue b c (bench f l r)) = c"
    "issued (overdue b c (bench f l r)) = []"
    "maxSpeed (car (overdue b c (bench f l r))) = 250" for b c f l r
    by (simp_all add: overdue_def bench_def)
  have stalled: "\<bar>fst (beforeEyes (overdue 120 c (bench 118 40 30))) - int 118\<bar> \<le> 10" for c
    by (simp add: start)
  have close: "\<bar>fst (beforeEyes (overdue 55 1 (bench 50 30 30))) - int 50\<bar> \<le> 10"
    by (simp add: start)
  have "map_option longVision (rescueMission (overdue 120 0 (bench 118 40 30))) = Some 1 \<and>
    map_option issued (rescueMission (overdue 120 0 (bench 118 40 30))) = Some []"
    using rescueMission_stagnation [OF due cf cl cr stalled, of 0] by (simp add: start)
  moreover
  have "map_option longVision (rescueMission (overdue 120 1 (bench 118 40 30))) = Some 2 \<and>
    map_option issued (rescueMission (overdue 120 1 (bench 118 40 30))) = Some []"
    using rescueMission_stagnation [OF due cf cl cr stalled, of 1] by (simp add: start)
  moreover
  have "map_option longVision (rescueMission (overdue 120 2 (bench 118 40 30))) = Some 0 \<and>
    map_option issued (rescueMission (overdue 120 2 (bench 118 40 30))) = Some (recoveryManeuver 250 True)"
    using rescueMission_stagnation [OF due cf cl cr stalled, of 2] by (simp add: start fresh)
  moreover
  have "map_option longVision (rescueMission (overdue 55 1 (bench 50 30 30))) = Some 0 \<and>
    map_option issued (rescueMission (overdue 55 1 (bench 50 30 30))) = Some (recoveryManeuver 250 False)"
    using rescueMission_stagnation [OF due cf cl cr close] by (simp add: start fresh)
  ultimately show ?thesis using run by blast
qed

end
